theory Spec2Isabelle
  imports Main "HOL-Library.Word" "HOL-Library.AList"
begin

unbundle bit_operations_syntax

section \<open>Control messages\<close>

text \<open>
  Every message on the control channel is a JSON object whose fields are all optional.
  A field is \<open>None\<close> when it is absent (JavaScript \<open>undefined\<close>, which
  \<^verbatim>\<open>JSON.stringify\<close> drops) or does not have the type of the wire schema.
  The record has one field per key that \<^verbatim>\<open>server.ts\<close> and \<^verbatim>\<open>client.ts\<close>
  read or write: \<^verbatim>\<open>type\<close>, \<^verbatim>\<open>command\<close>, \<^verbatim>\<open>passphrase\<close>, \<^verbatim>\<open>host\<close>, \<^verbatim>\<open>port\<close>,
  \<^verbatim>\<open>id\<close>, \<^verbatim>\<open>connection\<close>, \<^verbatim>\<open>data\<close>, \<^verbatim>\<open>status\<close>, \<^verbatim>\<open>error\<close>, \<^verbatim>\<open>hadError\<close>.
\<close>

type_synonym byte = "8 word"

record ControlMessage =
  msg_type :: "string option"
  msg_command :: "string option"
  msg_passphrase :: "string option"
  msg_host :: "string option"
  msg_port :: "int option"
  msg_id :: "string option"
  msg_connection :: "string option"
  msg_data :: "string option"
  msg_status :: "string option"
  msg_error :: "string option"
  msg_hadError :: "bool option"

definition no_fields :: ControlMessage where
  "no_fields = \<lparr> msg_type = None, msg_command = None, msg_passphrase = None,
     msg_host = None, msg_port = None, msg_id = None, msg_connection = None,
     msg_data = None, msg_status = None, msg_error = None, msg_hadError = None \<rparr>"

text \<open>JavaScript truthiness of an optional string: \<open>undefined\<close> and \<open>""\<close> are falsy.\<close>

definition truthy :: "string option \<Rightarrow> bool" where
  "truthy v = (case v of None \<Rightarrow> False | Some s \<Rightarrow> s \<noteq> [])"

text \<open>
  A transport frame is binary or UTF-8 text (\<^verbatim>\<open>isUTF8Message\<close> in \<^verbatim>\<open>utils.ts\<close>).
  \<^verbatim>\<open>JSON.parse\<close> belongs to the runtime; the text of a frame is therefore
  represented by what \<^verbatim>\<open>JSON.parse\<close> makes of it: \<open>Malformed\<close> text makes it throw
  a \<^verbatim>\<open>SyntaxError\<close>, \<open>Json body\<close> is text that parses to the object \<open>body\<close>.
  Text that parses to something other than an object (a number, a string, \<open>null\<close>)
  is not represented.
\<close>

datatype json_text = Malformed string | Json ControlMessage

datatype frame = BinaryFrame (binaryData: "byte list") | Utf8Frame (utf8Data: json_text)

definition isUTF8Message :: "frame \<Rightarrow> bool" where
  "isUTF8Message msg = (case msg of Utf8Frame _ \<Rightarrow> True | BinaryFrame _ \<Rightarrow> False)"

definition JSON_parse :: "json_text \<Rightarrow> ControlMessage option" where
  "JSON_parse txt = (case txt of Malformed _ \<Rightarrow> None | Json body \<Rightarrow> Some body)"

datatype js_error = SyntaxError | TypeError | TunnelError string | UnhandledErrorEvent string

section \<open>Base64 payload encoding\<close>

text \<open>
  Modelled from the spec: \<^verbatim>\<open>data.toString('base64')\<close> and
  \<^verbatim>\<open>Buffer.from(body.data, 'base64')\<close> are the runtime's \<^verbatim>\<open>Buffer\<close> codec, which is not
  part of the repository. The spec says that binary payload fields are base64-encoded on
  the wire; the definitions below are base64 as the runtime implements it: the alphabet
  \<^verbatim>\<open>A-Z a-z 0-9 + /\<close>, three bytes to four characters, \<^verbatim>\<open>=\<close> padding; the decoder
  stops at the first \<^verbatim>\<open>=\<close>, skips characters outside the alphabet and also accepts
  the URL-safe \<^verbatim>\<open>-\<close> and \<^verbatim>\<open>_\<close>. Bytes are 8-bit words, so the shifts lose the
  bits that leave the byte, as they do in the runtime.
\<close>

definition b64char :: "byte \<Rightarrow> char" where
  "b64char s = (let n = unat s in
     if n < 26 then char_of (65 + n)
     else if n < 52 then char_of (71 + n)
     else if n < 62 then char_of (n - 4)
     else if n = 62 then CHR ''+'' else CHR ''/'')"

definition unbase64 :: "char \<Rightarrow> byte option" where
  "unbase64 c = (let n = (of_char c :: nat) in
     if 65 \<le> n \<and> n \<le> 90 then Some (of_nat (n - 65))
     else if 97 \<le> n \<and> n \<le> 122 then Some (of_nat (n - 71))
     else if 48 \<le> n \<and> n \<le> 57 then Some (of_nat (n + 4))
     else if c = CHR ''+'' \<or> c = CHR ''-'' then Some 62
     else if c = CHR ''/'' \<or> c = CHR ''_'' then Some 63
     else None)"

fun sextets :: "byte list \<Rightarrow> byte list" where
  "sextets (a # b # c # rest) =
     [drop_bit 2 a, push_bit 4 (take_bit 2 a) OR drop_bit 4 b,
      push_bit 2 (take_bit 4 b) OR drop_bit 6 c, take_bit 6 c] @ sextets rest"
| "sextets [a, b] =
     [drop_bit 2 a, push_bit 4 (take_bit 2 a) OR drop_bit 4 b, push_bit 2 (take_bit 4 b)]"
| "sextets [a] = [drop_bit 2 a, push_bit 4 (take_bit 2 a)]"
| "sextets [] = []"

definition padding :: "nat \<Rightarrow> string" where
  "padding n = replicate ((3 - n mod 3) mod 3) (CHR ''='')"

definition toBase64 :: "byte list \<Rightarrow> string" where
  "toBase64 bs = map b64char (sextets bs) @ padding (length bs)"

fun unsextets :: "byte list \<Rightarrow> byte list" where
  "unsextets (s1 # s2 # s3 # s4 # rest) =
     [push_bit 2 s1 OR drop_bit 4 s2, push_bit 4 s2 OR drop_bit 2 s3, push_bit 6 s3 OR s4]
       @ unsextets rest"
| "unsextets [s1, s2, s3] = [push_bit 2 s1 OR drop_bit 4 s2, push_bit 4 s2 OR drop_bit 2 s3]"
| "unsextets [s1, s2] = [push_bit 2 s1 OR drop_bit 4 s2]"
| "unsextets _ = []"

definition fromBase64 :: "string \<Rightarrow> byte list" where
  "fromBase64 str =
     unsextets (List.map_filter unbase64 (takeWhile (\<lambda>c. c \<noteq> CHR ''='') str))"

section \<open>The relay server (\<^verbatim>\<open>commands/server.ts\<close>)\<close>

subsection \<open>Credentials and targets\<close>

text \<open>
  The loader stores ports as JavaScript numbers: \<^verbatim>\<open>0\<close> for the port \<^verbatim>\<open>*\<close>,
  \<^verbatim>\<open>parseInt(port, 10)\<close> otherwise, which is \<^verbatim>\<open>NaN\<close> for text that is not a number.
  \<^verbatim>\<open>indexOf\<close> compares with strict equality, under which \<^verbatim>\<open>NaN\<close> equals nothing.
\<close>

datatype jsnum = Num int | NaN

fun strict_eq :: "jsnum \<Rightarrow> jsnum \<Rightarrow> bool" where
  "strict_eq (Num a) (Num b) = (a = b)"
| "strict_eq _ _ = False"

text \<open>\<^verbatim>\<open>Array.prototype.indexOf\<close>; the searched value is \<open>None\<close> for \<open>undefined\<close>.\<close>

fun indexOf :: "jsnum list \<Rightarrow> jsnum option \<Rightarrow> int" where
  "indexOf [] v = - 1"
| "indexOf (x # xs) v =
     (if (case v of None \<Rightarrow> False | Some n \<Rightarrow> strict_eq x n) then 0
      else (let i = indexOf xs v in if i = - 1 then - 1 else i + 1))"

text \<open>
  Modelled from the spec: the declaration of \<^verbatim>\<open>ICredential\<close> is imported from
  \<^verbatim>\<open>utils\<close> but missing there. The spec gives a Credential a passphrase and an optional
  mapping from host to permitted ports, and the loader in \<^verbatim>\<open>Server.run\<close> builds exactly
  that: \<^verbatim>\<open>item.allowed\<close> becomes an object from host to \<^verbatim>\<open>number[]\<close>.
\<close>

record ICredential =
  passphrase :: string
  allowed :: "(string \<rightharpoonup> jsnum list) option"

text \<open>
  \<^verbatim>\<open>HostPortPair\<close> of \<^verbatim>\<open>utils.ts\<close>. The two-argument constructor sets the fields only
  when the host is a string and the port a number; otherwise both stay \<open>undefined\<close>.
\<close>

record HostPortPair =
  host :: "string option"
  port :: "int option"

definition fromBody :: "ControlMessage \<Rightarrow> HostPortPair" where
  "fromBody body =
     (case (msg_host body, msg_port body) of
        (Some h, Some p) \<Rightarrow> \<lparr> host = Some h, port = Some p \<rparr>
      | _ \<Rightarrow> \<lparr> host = None, port = None \<rparr>)"

text \<open>The property key that a possibly undefined string selects.\<close>

definition key_of :: "string option \<Rightarrow> string" where
  "key_of h = (case h of None \<Rightarrow> ''undefined'' | Some s \<Rightarrow> s)"

text \<open>
  The credential table, every \<^verbatim>\<open>allowed\<close> table and every mapping of a session are
  plain objects (\<^verbatim>\<open>{}\<close>), and the server reads them with \<^verbatim>\<open>obj[key]\<close>. Such a read
  finds the object's own property first and the members of \<^verbatim>\<open>Object.prototype\<close>
  after it: for a key like \<^verbatim>\<open>toString\<close> that the object does not own, the result is
  an inherited function, which is neither \<open>undefined\<close> nor falsy and has none of the
  properties the server looks for.
\<close>

definition object_prototype :: "string list" where
  "object_prototype =
     [''constructor'', ''__defineGetter__'', ''__defineSetter__'', ''hasOwnProperty'',
      ''__lookupGetter__'', ''__lookupSetter__'', ''isPrototypeOf'', ''propertyIsEnumerable'',
      ''toString'', ''valueOf'', ''__proto__'', ''toLocaleString'']"

datatype 'a property = Own 'a | Inherited | Undefined

definition lookup :: "(string \<rightharpoonup> 'a) \<Rightarrow> string \<Rightarrow> 'a property" where
  "lookup obj k =
     (case obj k of
        Some v \<Rightarrow> Own v
      | None \<Rightarrow> if k \<in> set object_prototype then Inherited else Undefined)"

subsection \<open>Sessions\<close>

type_synonym sock = nat
type_synonym conn_id = string

record SocketConnection =
  target :: HostPortPair
  socket :: "sock option"

text \<open>
  \<open>sockets\<close> is the registry of \<^verbatim>\<open>Server.run\<close>: per WebSocket connection id, the
  logical connections in insertion order (the order of \<^verbatim>\<open>Object.keys\<close>).
  \<open>conn_passphrase\<close> holds the \<^verbatim>\<open>conn.passphrase\<close> property of each connection.
  The id of a connection and the id of a logical connection come from \<^verbatim>\<open>UUIDv4()\<close>;
  such a key never names a member of \<^verbatim>\<open>Object.prototype\<close>, so the reads and writes
  that use one see own properties only. The \<^verbatim>\<open>id\<close> of a \<^verbatim>\<open>TRAFFIC\<close> message is the
  client's text and is looked up with \<open>lookup\<close>.
\<close>

record server_state =
  sockets :: "conn_id \<rightharpoonup> (string \<times> SocketConnection) list"
  conn_passphrase :: "conn_id \<rightharpoonup> string"

datatype effect =
    SendJSON conn_id ControlMessage
  | NetConnect conn_id string HostPortPair
  | SocketWrite sock "byte list"
  | SocketEnd sock
  | ConnClose conn_id

text \<open>
  A handler returns the new state, what it did in order, and the error it threw, if any.
\<close>

type_synonym result = "server_state \<times> effect list \<times> js_error option"

definition sendJSON :: "conn_id \<Rightarrow> ControlMessage \<Rightarrow> effect list" where
  "sendJSON conn body = [SendJSON conn body]"

definition isAuthenticated :: "(string \<rightharpoonup> ICredential) option \<Rightarrow> ControlMessage \<Rightarrow> bool" where
  "isAuthenticated credentials body =
     (case credentials of
        None \<Rightarrow> True
      | Some tbl \<Rightarrow>
          (case msg_passphrase body of
             None \<Rightarrow> False
           | Some p \<Rightarrow> if p = [] then False else lookup tbl p \<noteq> Undefined))"

subsection \<open>\<^verbatim>\<open>CONNECT\<close>\<close>

definition on_CONNECT ::
  "(string \<rightharpoonup> ICredential) option \<Rightarrow> server_state \<Rightarrow> conn_id \<Rightarrow> ControlMessage \<Rightarrow> result" where
  "on_CONNECT credentials s conn body =
     (if \<not> isAuthenticated credentials body then
        (s, sendJSON conn (no_fields\<lparr> msg_command := Some ''CONNECT'',
                                       msg_error := Some ''AUTHFAIL'' \<rparr>), None)
      else
        (let s1 = (if truthy (msg_passphrase body)
                   then s\<lparr> conn_passphrase := (conn_passphrase s)(conn := msg_passphrase body) \<rparr>
                   else s)
         in (s1\<lparr> sockets := (sockets s1)(conn \<mapsto> []) \<rparr>,
             sendJSON conn (no_fields\<lparr> msg_command := Some ''CONNECT'' \<rparr>), None)))"

subsection \<open>\<^verbatim>\<open>START\<close>\<close>

text \<open>
  \<^verbatim>\<open>allowed[pair.host] || allowed['*']\<close>: an array is truthy even when it is empty, and
  so is an inherited member.
\<close>

definition allowedPorts ::
  "(string \<rightharpoonup> jsnum list) \<Rightarrow> HostPortPair \<Rightarrow> jsnum list property" where
  "allowedPorts a pair =
     (case lookup a (key_of (host pair)) of
        Undefined \<Rightarrow> lookup a ''*''
      | found \<Rightarrow> found)"

definition on_START ::
  "(string \<rightharpoonup> ICredential) option \<Rightarrow> string \<Rightarrow> server_state \<Rightarrow> conn_id \<Rightarrow> ControlMessage
     \<Rightarrow> result" where
  "on_START credentials uuid s conn body =
     (case sockets s conn of
        None \<Rightarrow>
          (s, sendJSON conn (no_fields\<lparr> msg_command := msg_type body,
                                         msg_error := Some ''AUTHFAIL'' \<rparr>), None)
      | Some _ \<Rightarrow>
          (let pair = fromBody body;
               dial = (s, sendJSON conn (no_fields\<lparr> msg_command := Some ''START'',
                                           msg_status := Some ''CONNECTING'',
                                           msg_connection := Some uuid \<rparr>)
                          @ [NetConnect conn uuid pair], None);
               forbidden = (s, sendJSON conn (no_fields\<lparr> msg_command := msg_type body,
                                                msg_error := Some ''FORBIDDEN'' \<rparr>), None)
           in case credentials of
                None \<Rightarrow> dial
              | Some tbl \<Rightarrow>
                  (if \<not> truthy (conn_passphrase s conn) then
                     (s, sendJSON conn (no_fields\<lparr> msg_command := msg_type body,
                                                    msg_error := Some ''AUTHFAIL'' \<rparr>), None)
                   else
                     (case lookup tbl (key_of (conn_passphrase s conn)) of
                        Undefined \<Rightarrow> (s, [], Some TypeError)
                      | Inherited \<Rightarrow> dial
                      | Own cred \<Rightarrow>
                          (case allowed cred of
                             None \<Rightarrow> dial
                           | Some a \<Rightarrow>
                               (case allowedPorts a pair of
                                  Undefined \<Rightarrow> forbidden
                                | Inherited \<Rightarrow> (s, [], Some TypeError)
                                | Own ports \<Rightarrow>
                                    if indexOf ports (map_option Num (port pair)) = - 1
                                       \<and> indexOf ports (Some (Num 0)) = - 1
                                    then forbidden else dial))))))"

text \<open>
  \<^verbatim>\<open>SocketConnection.start\<close> listens for \<^verbatim>\<open>connect\<close> and \<^verbatim>\<open>timeout\<close> on the
  new socket and for nothing else. \<open>start\<close> gives what an event of the dialling socket
  does to the connection object and to the promise. An \<^verbatim>\<open>error\<close> event finds no
  listener, and an event emitter throws an \<^verbatim>\<open>error\<close> event that nobody listens for.
\<close>

datatype socket_event = Connect | Timeout | Error string | Data "byte list" | Close bool

datatype settled = Resolved sock | Rejected js_error | Pending | Uncaught js_error

definition start :: "SocketConnection \<Rightarrow> sock \<Rightarrow> socket_event \<Rightarrow> SocketConnection \<times> settled" where
  "start this sock ev =
     (case ev of
        Connect \<Rightarrow> (this\<lparr> socket := Some sock \<rparr>, Resolved sock)
      | Timeout \<Rightarrow> (this, Rejected (TunnelError ''TIMEOUT''))
      | Error e \<Rightarrow> (this, Uncaught (UnhandledErrorEvent e))
      | _ \<Rightarrow> (this, Pending))"

text \<open>The \<^verbatim>\<open>reason\<close> property of a caught value: only a \<^verbatim>\<open>TunnelError\<close> has one.\<close>

definition reason :: "js_error \<Rightarrow> string option" where
  "reason e = (case e of TunnelError r \<Rightarrow> Some r | _ \<Rightarrow> None)"

text \<open>
  The \<^verbatim>\<open>.then\<close> callback of the dial. An exception inside it is caught by the
  \<^verbatim>\<open>.catch\<close> that follows, as any rejection of \<^verbatim>\<open>start\<close> is.
\<close>

definition dial_failed :: "server_state \<Rightarrow> conn_id \<Rightarrow> string \<Rightarrow> js_error \<Rightarrow> result" where
  "dial_failed s conn ident e =
     (s, sendJSON conn (no_fields\<lparr> msg_status := Some ''FAILED'', msg_error := reason e,
                                    msg_connection := Some ident \<rparr>), None)"

definition dial_established ::
  "server_state \<Rightarrow> conn_id \<Rightarrow> string \<Rightarrow> SocketConnection \<Rightarrow> result" where
  "dial_established s conn ident socketConnection =
     (let established = sendJSON conn (no_fields\<lparr> msg_status := Some ''ESTABLISHED'',
                                                   msg_connection := Some ident \<rparr>)
      in case sockets s conn of
           None \<Rightarrow>
             (case dial_failed s conn ident TypeError of
                (s', sent, err) \<Rightarrow> (s', established @ sent, err))
         | Some m \<Rightarrow>
             (s\<lparr> sockets := (sockets s)(conn \<mapsto> AList.update ident socketConnection m) \<rparr>,
              established, None))"

text \<open>What an event of the dialling socket makes the server do.\<close>

definition on_dial_event ::
  "server_state \<Rightarrow> conn_id \<Rightarrow> string \<Rightarrow> SocketConnection \<Rightarrow> sock \<Rightarrow> socket_event \<Rightarrow> result" where
  "on_dial_event s conn ident socketConnection sock ev =
     (case start socketConnection sock ev of
        (this, Resolved _) \<Rightarrow> dial_established s conn ident this
      | (_, Rejected e) \<Rightarrow> dial_failed s conn ident e
      | (_, Pending) \<Rightarrow> (s, [], None)
      | (_, Uncaught e) \<Rightarrow> (s, [], Some e))"

text \<open>The listeners that the \<^verbatim>\<open>.then\<close> callback puts on the established socket.\<close>

definition on_socket_data :: "conn_id \<Rightarrow> string \<Rightarrow> byte list \<Rightarrow> effect list" where
  "on_socket_data conn ident chunk =
     sendJSON conn (no_fields\<lparr> msg_connection := Some ident,
                                msg_data := Some (toBase64 chunk) \<rparr>)"

definition on_socket_close :: "server_state \<Rightarrow> conn_id \<Rightarrow> string \<Rightarrow> bool \<Rightarrow> result" where
  "on_socket_close s conn ident hadError =
     (case sockets s conn of
        None \<Rightarrow> (s, [], Some TypeError)
      | Some m \<Rightarrow>
          (s\<lparr> sockets := (sockets s)(conn \<mapsto> AList.delete ident m) \<rparr>,
           sendJSON conn (no_fields\<lparr> msg_connection := Some ident,
                                      msg_status := Some ''CLOSED'',
                                      msg_hadError := Some hadError \<rparr>)
             @ [ConnClose conn], None))"

text \<open>
  An established socket has the \<^verbatim>\<open>data\<close> and \<^verbatim>\<open>close\<close> listeners above and the two
  listeners that \<^verbatim>\<open>start\<close> left on it, and no listener for \<^verbatim>\<open>error\<close>. A socket
  that fails emits \<^verbatim>\<open>error\<close> and then \<^verbatim>\<open>close\<close> with \<^verbatim>\<open>hadError\<close> true; the
  \<^verbatim>\<open>error\<close> event finds no listener and is thrown, as it is for the dialling socket.
\<close>

definition on_socket_event ::
  "server_state \<Rightarrow> conn_id \<Rightarrow> string \<Rightarrow> socket_event \<Rightarrow> result" where
  "on_socket_event s conn ident ev =
     (case ev of
        Data chunk \<Rightarrow> (s, on_socket_data conn ident chunk, None)
      | Close hadError \<Rightarrow> on_socket_close s conn ident hadError
      | Error e \<Rightarrow> (s, [], Some (UnhandledErrorEvent e))
      | _ \<Rightarrow> (s, [], None))"

subsection \<open>\<^verbatim>\<open>TRAFFIC\<close>\<close>

definition on_TRAFFIC :: "server_state \<Rightarrow> conn_id \<Rightarrow> ControlMessage \<Rightarrow> result" where
  "on_TRAFFIC s conn body =
     (let authfail = (if sockets s conn = None
                      then sendJSON conn (no_fields\<lparr> msg_command := msg_type body,
                                                      msg_error := Some ''AUTHFAIL'' \<rparr>)
                      else [])
      in if \<not> truthy (msg_id body) then
           (s, authfail @ sendJSON conn (no_fields\<lparr> msg_command := Some ''TRAFFIC'',
                                                    msg_connection := msg_id body,
                                                    msg_error := Some ''NOID'' \<rparr>), None)
         else
           (case sockets s conn of
              None \<Rightarrow> (s, authfail, Some TypeError)
            | Some m \<Rightarrow>
                (case lookup (map_of m) (key_of (msg_id body)) of
                   Undefined \<Rightarrow>
                     (s, authfail @ sendJSON conn (no_fields\<lparr> msg_command := Some ''TRAFFIC'',
                                                    msg_connection := msg_id body,
                                                    msg_error := Some ''INVALIDID'' \<rparr>), None)
                 | Inherited \<Rightarrow>
                     (s, authfail @ sendJSON conn (no_fields\<lparr> msg_command := Some ''TRAFFIC'',
                                                    msg_connection := msg_id body,
                                                    msg_error := Some ''CLOSED'' \<rparr>), None)
                 | Own socketConnection \<Rightarrow>
                     (case socket socketConnection of
                        None \<Rightarrow>
                          (s, authfail @ sendJSON conn (no_fields\<lparr> msg_command := Some ''TRAFFIC'',
                                                    msg_connection := msg_id body,
                                                    msg_error := Some ''CLOSED'' \<rparr>), None)
                      | Some sk \<Rightarrow>
                          (case msg_data body of
                             None \<Rightarrow> (s, authfail, Some TypeError)
                           | Some d \<Rightarrow> (s, authfail @ [SocketWrite sk (fromBase64 d)], None))))))"

text \<open>The callback of \<^verbatim>\<open>socket.write\<close>: the acknowledgement, or the write error.\<close>

definition on_written :: "conn_id \<Rightarrow> ControlMessage \<Rightarrow> string option \<Rightarrow> effect list" where
  "on_written conn body err =
     (case err of
        Some e \<Rightarrow> sendJSON conn (no_fields\<lparr> msg_connection := msg_id body,
                                   msg_command := Some ''TRAFFIC'', msg_error := Some e \<rparr>)
      | None \<Rightarrow> sendJSON conn (no_fields\<lparr> msg_connection := msg_id body,
                                 msg_command := Some ''TRAFFIC'' \<rparr>))"

subsection \<open>The message handler and the close handler of a connection\<close>

definition on_body ::
  "(string \<rightharpoonup> ICredential) option \<Rightarrow> string \<Rightarrow> server_state \<Rightarrow> conn_id \<Rightarrow> ControlMessage
     \<Rightarrow> result" where
  "on_body credentials uuid s conn body =
     (if msg_type body = Some ''CONNECT'' then on_CONNECT credentials s conn body
      else if msg_type body = Some ''START'' then on_START credentials uuid s conn body
      else if msg_type body = Some ''TRAFFIC'' then on_TRAFFIC s conn body
      else (s, sendJSON conn
                 (no_fields\<lparr> msg_command :=
                                (if truthy (msg_type body) then msg_type body else Some ''UNKNOWN''),
                              msg_error := Some ''NOTIMPLEMENTED'' \<rparr>), None))"

definition on_message ::
  "(string \<rightharpoonup> ICredential) option \<Rightarrow> string \<Rightarrow> server_state \<Rightarrow> conn_id \<Rightarrow> frame \<Rightarrow> result" where
  "on_message credentials uuid s conn message =
     (if isUTF8Message message then
        (case JSON_parse (utf8Data message) of
           None \<Rightarrow> (s, [], Some SyntaxError)
         | Some body \<Rightarrow> on_body credentials uuid s conn body)
      else (s, [], None))"

text \<open>
  \<^verbatim>\<open>SocketConnection.close\<close> throws \<^verbatim>\<open>NOCONNECTION\<close> without a socket, else ends the
  socket and forgets it. The close handler of the WebSocket connection calls it for every
  key of the session in order; an exception ends the loop. The waits between the calls
  are not modelled.
\<close>

fun close_each ::
  "(string \<times> SocketConnection) list
     \<Rightarrow> (string \<times> SocketConnection) list \<times> effect list \<times> js_error option" where
  "close_each [] = ([], [], None)"
| "close_each ((ident, this) # rest) =
     (case socket this of
        None \<Rightarrow> ((ident, this) # rest, [], Some (TunnelError ''NOCONNECTION''))
      | Some sk \<Rightarrow>
          (case close_each rest of
             (rest', done, err) \<Rightarrow> ((ident, this\<lparr> socket := None \<rparr>) # rest', SocketEnd sk # done, err)))"

definition on_conn_close :: "server_state \<Rightarrow> conn_id \<Rightarrow> result" where
  "on_conn_close s conn =
     (case sockets s conn of
        None \<Rightarrow> (s, [], None)
      | Some openConnections \<Rightarrow>
          (case close_each openConnections of
             (m', done, err) \<Rightarrow> (s\<lparr> sockets := (sockets s)(conn \<mapsto> m') \<rparr>, done, err)))"

subsection \<open>The events of the server, one after the other\<close>

text \<open>
  The server is driven by events: a frame on a WebSocket connection (with the id that
  \<^verbatim>\<open>UUIDv4()\<close> would give a \<^verbatim>\<open>START\<close>), an event of a dialling socket, an event
  of an established socket, the close of a WebSocket connection. The message handler and
  the close handler of a connection are \<^verbatim>\<open>async\<close> functions: what they throw rejects
  a promise that nobody awaits, and the server goes on. What a socket listener throws is
  an uncaught exception, which ends the process: no later event is handled.
  \<open>server_run\<close> gives the state after the events, everything done in order, and the
  exception that ended the process, if one did.
\<close>

datatype server_event =
    Message conn_id string frame
  | DialEvent conn_id string SocketConnection sock socket_event
  | SocketEvent conn_id string socket_event
  | ConnClosed conn_id

definition server_step ::
  "(string \<rightharpoonup> ICredential) option \<Rightarrow> server_state \<Rightarrow> server_event \<Rightarrow> result" where
  "server_step credentials s ev =
     (case ev of
        Message conn uuid message \<Rightarrow> on_message credentials uuid s conn message
      | DialEvent conn ident socketConnection sk e \<Rightarrow>
          on_dial_event s conn ident socketConnection sk e
      | SocketEvent conn ident e \<Rightarrow> on_socket_event s conn ident e
      | ConnClosed conn \<Rightarrow> on_conn_close s conn)"

definition ends_process :: "server_event \<Rightarrow> js_error option \<Rightarrow> bool" where
  "ends_process ev err =
     (case ev of
        Message _ _ _ \<Rightarrow> False
      | ConnClosed _ \<Rightarrow> False
      | _ \<Rightarrow> err \<noteq> None)"

fun server_run ::
  "(string \<rightharpoonup> ICredential) option \<Rightarrow> server_state \<Rightarrow> server_event list \<Rightarrow> result" where
  "server_run credentials s [] = (s, [], None)"
| "server_run credentials s (ev # evs) =
     (case server_step credentials s ev of
        (s1, done1, err) \<Rightarrow>
          if ends_process ev err then (s1, done1, err)
          else (case server_run credentials s1 evs of
                  (s2, done2, err2) \<Rightarrow> (s2, done1 @ done2, err2)))"

section \<open>The tunnel client (\<^verbatim>\<open>commands/client.ts\<close>)\<close>

text \<open>
  The closure variables of \<^verbatim>\<open>Client.run\<close>. The command line gives the target as
  \<^verbatim>\<open>host:port\<close>; \<open>target_host\<close> and \<open>target_port\<close> are its two parts as the
  \<^verbatim>\<open>START\<close> message carries them (a port that is not a number is sent as \<open>null\<close>).
  The handler of local \<^verbatim>\<open>data\<close> events, which reconnects under the lock, is not part
  of this model.
\<close>

type_synonym ws = nat

record client_config =
  target_host :: string
  target_port :: "int option"
  cfg_passphrase :: "string option"

record client_state =
  connectionId :: "string option"
  wsConnection :: "ws option"
  isConnected :: bool
  buffers :: "byte list list"
  client :: "sock option"

datatype client_effect =
    WsSend ws ControlMessage
  | WsClose ws
  | LocalWrite sock "byte list"
  | LocalEnd sock
  | LocalServerClose
  | ProcessExit

text \<open>How a handler ends: it returns, \<^verbatim>\<open>panic\<close> ends the process, or it throws.\<close>

datatype ending = Returned | Exited | Threw js_error

type_synonym client_result = "client_state \<times> client_effect list \<times> ending"

text \<open>\<^verbatim>\<open>conn.close(); localServer?.close(); panic(log, body.error)\<close>\<close>

definition fatal :: "client_state \<Rightarrow> ws \<Rightarrow> client_result" where
  "fatal s conn = (s, [WsClose conn, LocalServerClose, ProcessExit], Exited)"

text \<open>The \<^verbatim>\<open>switch (body.command)\<close> of the message handler.\<close>

definition on_command ::
  "client_config \<Rightarrow> client_state \<Rightarrow> ws \<Rightarrow> ControlMessage \<Rightarrow> client_result" where
  "on_command cfg s conn body =
     (if msg_command body = Some ''CONNECT'' then
        (if truthy (msg_error body) then fatal s conn
         else (s, [WsSend conn (no_fields\<lparr> msg_type := Some ''START'',
                                             msg_host := Some (target_host cfg),
                                             msg_port := target_port cfg \<rparr>)], Returned))
      else if msg_command body = Some ''START'' then
        (if truthy (msg_error body) then fatal s conn
         else (s\<lparr> connectionId := msg_connection body \<rparr>, [], Returned))
      else if msg_command body = Some ''TRAFFIC'' then
        (if truthy (msg_error body) then fatal s conn else (s, [], Returned))
      else (s, [], Returned))"

text \<open>The \<^verbatim>\<open>if (body.connection)\<close> that follows the switch.\<close>

definition on_connection_field :: "client_state \<Rightarrow> ControlMessage \<Rightarrow> client_result" where
  "on_connection_field s body =
     (if truthy (msg_connection body) then
        (if truthy (msg_status body) then
           (if msg_status body = Some ''ESTABLISHED'' then (s, [], Returned)
            else if msg_status body = Some ''CLOSED'' then
              (s, [LocalServerClose, ProcessExit], Exited)
            else if msg_status body = Some ''FAILED'' then
              (s, [LocalServerClose, ProcessExit], Exited)
            else (s, [], Returned))
         else
           (case msg_data body of
              None \<Rightarrow> (s, [], Returned)
            | Some d \<Rightarrow>
                if d = [] then (s, [], Returned)
                else
                  (let buffer = fromBase64 d
                   in case client s of
                        Some c \<Rightarrow> (s, [LocalWrite c buffer], Returned)
                      | None \<Rightarrow> (s\<lparr> buffers := buffers s @ [buffer] \<rparr>, [], Returned))))
      else (s, [], Returned))"

definition client_on_message ::
  "client_config \<Rightarrow> client_state \<Rightarrow> ws \<Rightarrow> frame \<Rightarrow> client_result" where
  "client_on_message cfg s conn message =
     (if isUTF8Message message then
        (case JSON_parse (utf8Data message) of
           None \<Rightarrow> (s, [], Threw SyntaxError)
         | Some body \<Rightarrow>
             (case on_command cfg s conn body of
                (s1, done1, Returned) \<Rightarrow>
                  (case on_connection_field s1 body of
                     (s2, done2, e) \<Rightarrow> (s2, done1 @ done2, e))
              | r \<Rightarrow> r))
      else (s, [], Returned))"

text \<open>The messages of one connection are handled in the order of their arrival.\<close>

fun receive_all ::
  "client_config \<Rightarrow> ws \<Rightarrow> client_state \<Rightarrow> frame list \<Rightarrow> client_result" where
  "receive_all cfg conn s [] = (s, [], Returned)"
| "receive_all cfg conn s (m # ms) =
     (case client_on_message cfg s conn m of
        (s1, done1, Returned) \<Rightarrow>
          (case receive_all cfg conn s1 ms of (s2, done2, e) \<Rightarrow> (s2, done1 @ done2, e))
      | r \<Rightarrow> r)"

text \<open>The \<^verbatim>\<open>connect\<close> and \<^verbatim>\<open>close\<close> handlers of the WebSocket client.\<close>

definition on_ws_connect ::
  "client_config \<Rightarrow> client_state \<Rightarrow> ws \<Rightarrow> client_state \<times> client_effect list" where
  "on_ws_connect cfg s conn =
     (s\<lparr> isConnected := True, wsConnection := Some conn \<rparr>,
      [WsSend conn (no_fields\<lparr> msg_type := Some ''CONNECT'',
                                msg_passphrase := cfg_passphrase cfg \<rparr>)])"

definition on_ws_close :: "client_state \<Rightarrow> client_state" where
  "on_ws_close s = s\<lparr> isConnected := False \<rparr>"

text \<open>
  The local listener. \<open>flush\<close> is the loop
  \<^verbatim>\<open>while (buffers.length > 0) { socket.write(buffers.shift()) }\<close>; it returns the queue
  that the loop leaves and the writes it made.
\<close>

fun flush :: "sock \<Rightarrow> byte list list \<Rightarrow> byte list list \<times> client_effect list" where
  "flush sk [] = ([], [])"
| "flush sk (buffer # rest) =
     (case flush sk rest of (left, done) \<Rightarrow> (left, LocalWrite sk buffer # done))"

definition on_connection :: "client_state \<Rightarrow> sock \<Rightarrow> client_state \<times> client_effect list" where
  "on_connection s sk =
     (case client s of
        None \<Rightarrow>
          (case flush sk (buffers s) of
             (left, done) \<Rightarrow> (s\<lparr> client := Some sk, buffers := left \<rparr>, done))
      | Some _ \<Rightarrow> (s, [LocalEnd sk]))"

text \<open>
  \<^verbatim>\<open>net.createServer\<close> puts the \<^verbatim>\<open>close\<close> listener on every accepted socket,
  whether or not the \<^verbatim>\<open>connection\<close> handler attached it; the listener does not look
  at the socket it belongs to.
\<close>

definition on_local_close :: "client_state \<Rightarrow> sock \<Rightarrow> client_state \<times> client_effect list" where
  "on_local_close s sk =
     (s\<lparr> client := None \<rparr>,
      (case wsConnection s of Some c \<Rightarrow> [WsClose c] | None \<Rightarrow> []))"

section \<open>Reference predicates\<close>

text \<open>A port list permits a port when it holds the port itself or the wildcard port 0.\<close>

definition port_permitted :: "jsnum list \<Rightarrow> int option \<Rightarrow> bool" where
  "port_permitted ports p =
     ((case p of None \<Rightarrow> False | Some n \<Rightarrow> Num n \<in> set ports) \<or> Num 0 \<in> set ports)"

text \<open>
  The authorisation rule in the words of the spec, for comparison with \<open>on_START\<close>:
  no \<^verbatim>\<open>allowed\<close> restriction, or the port is permitted by the entry of the requested
  host, or it is permitted by the entry of the wildcard host.
\<close>

definition authorize_spec :: "ICredential \<Rightarrow> HostPortPair \<Rightarrow> bool" where
  "authorize_spec cred pair =
     (case allowed cred of
        None \<Rightarrow> True
      | Some a \<Rightarrow>
          (case a (key_of (host pair)) of
             None \<Rightarrow> False
           | Some ps \<Rightarrow> port_permitted ps (port pair))
          \<or> (case a ''*'' of None \<Rightarrow> False | Some ps \<Rightarrow> port_permitted ps (port pair)))"

text \<open>
  The rule with precedence: the entry of the requested host decides alone when there is
  one, and the entry of the wildcard host is consulted only when there is none.
\<close>

definition authorize_first_match :: "ICredential \<Rightarrow> HostPortPair \<Rightarrow> bool" where
  "authorize_first_match cred pair =
     (case allowed cred of
        None \<Rightarrow> True
      | Some a \<Rightarrow>
          (case a (key_of (host pair)) of
             Some ps \<Rightarrow> port_permitted ps (port pair)
           | None \<Rightarrow>
               (case a ''*'' of None \<Rightarrow> False | Some ps \<Rightarrow> port_permitted ps (port pair))))"

text \<open>
  The one event that puts the logical connection \<open>ident\<close> into the mapping of the
  connection \<open>conn\<close>: the \<^verbatim>\<open>connect\<close> of a dial that was started for it.
\<close>

definition completes_dial :: "server_event \<Rightarrow> conn_id \<Rightarrow> string \<Rightarrow> bool" where
  "completes_dial ev conn ident =
     (case ev of
        DialEvent c i _ _ e \<Rightarrow> c = conn \<and> i = ident \<and> e = Connect
      | _ \<Rightarrow> False)"

text \<open>The session of \<open>conn\<close> has a mapping, and the mapping has no entry for \<open>ident\<close>.\<close>

definition untracked :: "server_state \<Rightarrow> conn_id \<Rightarrow> string \<Rightarrow> bool" where
  "untracked s conn ident =
     (case sockets s conn of None \<Rightarrow> False | Some m \<Rightarrow> map_of m ident = None)"

text \<open>
  The frame that carries one payload to the client: what \<open>on_socket_data\<close> sends, with
  any text in the \<^verbatim>\<open>data\<close> field.
\<close>

definition payload :: "string \<Rightarrow> string \<Rightarrow> frame" where
  "payload ident d =
     Utf8Frame (Json (no_fields\<lparr> msg_connection := Some ident, msg_data := Some d \<rparr>))"

section \<open>Base64 round trip\<close>

lemma drop_diff_2: "2 \<le> n \<Longrightarrow> Suc (Suc (n - 2)) = n"
  by simp

lemma drop_diff_4: "4 \<le> n \<Longrightarrow> 4 + (n - 4) = (n::nat)"
  by simp

lemma drop_diff_6: "6 \<le> n \<Longrightarrow> 6 + (n - 6) = (n::nat)"
  by simp

lemma first_byte:
  "push_bit 2 (drop_bit 2 a) OR drop_bit 4 (push_bit 4 (take_bit 2 a) OR drop_bit 4 b) = (a::byte)"
proof (rule bit_word_eqI)
  fix n assume "n < LENGTH(8)"
  then show "bit (push_bit 2 (drop_bit 2 a)
                  OR drop_bit 4 (push_bit 4 (take_bit 2 a) OR drop_bit 4 b)) n = bit a n"
    by (cases "2 \<le> n") (auto simp: bit_simps drop_diff_2)
qed

lemma second_byte:
  "push_bit 4 (push_bit 4 (take_bit 2 a) OR drop_bit 4 b)
     OR drop_bit 2 (push_bit 2 (take_bit 4 b) OR drop_bit 6 c) = (b::byte)"
proof (rule bit_word_eqI)
  fix n assume "n < LENGTH(8)"
  then show "bit (push_bit 4 (push_bit 4 (take_bit 2 a) OR drop_bit 4 b)
                  OR drop_bit 2 (push_bit 2 (take_bit 4 b) OR drop_bit 6 c)) n = bit b n"
    by (cases "4 \<le> n") (auto simp: bit_simps drop_diff_4)
qed

lemma third_byte:
  "push_bit 6 (push_bit 2 (take_bit 4 b) OR drop_bit 6 c) OR take_bit 6 c = (c::byte)"
proof (rule bit_word_eqI)
  fix n assume "n < LENGTH(8)"
  then show "bit (push_bit 6 (push_bit 2 (take_bit 4 b) OR drop_bit 6 c) OR take_bit 6 c) n
               = bit c n"
    by (cases "6 \<le> n") (auto simp: bit_simps drop_diff_6)
qed

lemma second_byte_last:
  "push_bit 4 (push_bit 4 (take_bit 2 a) OR drop_bit 4 b)
     OR drop_bit 2 (push_bit 2 (take_bit 4 b)) = (b::byte)"
proof (rule bit_word_eqI)
  fix n assume "n < LENGTH(8)"
  then show "bit (push_bit 4 (push_bit 4 (take_bit 2 a) OR drop_bit 4 b)
                  OR drop_bit 2 (push_bit 2 (take_bit 4 b))) n = bit b n"
    by (cases "4 \<le> n") (auto simp: bit_simps drop_diff_4)
qed

lemma first_byte_last:
  "push_bit 2 (drop_bit 2 a) OR drop_bit 4 (push_bit 4 (take_bit 2 a)) = (a::byte)"
proof (rule bit_word_eqI)
  fix n assume "n < LENGTH(8)"
  then show "bit (push_bit 2 (drop_bit 2 a) OR drop_bit 4 (push_bit 4 (take_bit 2 a))) n
               = bit a n"
    by (cases "2 \<le> n") (auto simp: bit_simps drop_diff_2)
qed

text \<open>Every sextet that the encoder produces is below 64.\<close>

lemma six_bits: "take_bit 6 (w::byte) = w \<Longrightarrow> unat w < 64"
proof -
  assume "take_bit 6 w = w"
  then have "unat w = take_bit 6 (unat w)"
    by (metis unsigned_take_bit_eq)
  also have "\<dots> < 2 ^ 6"
    by (rule take_bit_nat_less_exp)
  finally show ?thesis by simp
qed

lemma sextet_1: "take_bit 6 (drop_bit 2 (a::byte)) = drop_bit 2 a"
  by (rule bit_word_eqI) (auto simp: bit_simps dest: bit_imp_le_length)

lemma sextet_2:
  "take_bit 6 (push_bit 4 (take_bit 2 a) OR drop_bit 4 (b::byte))
     = push_bit 4 (take_bit 2 a) OR drop_bit 4 b"
  by (rule bit_word_eqI) (auto simp: bit_simps dest: bit_imp_le_length)

lemma sextet_3:
  "take_bit 6 (push_bit 2 (take_bit 4 b) OR drop_bit 6 (c::byte))
     = push_bit 2 (take_bit 4 b) OR drop_bit 6 c"
  by (rule bit_word_eqI) (auto simp: bit_simps dest: bit_imp_le_length)

lemma sextet_2_last: "take_bit 6 (push_bit 4 (take_bit 2 (a::byte))) = push_bit 4 (take_bit 2 a)"
  by (rule bit_word_eqI) (auto simp: bit_simps dest: bit_imp_le_length)

lemma sextet_3_last: "take_bit 6 (push_bit 2 (take_bit 4 (b::byte))) = push_bit 2 (take_bit 4 b)"
  by (rule bit_word_eqI) (auto simp: bit_simps dest: bit_imp_le_length)

lemma sextets_below_64: "\<forall>s \<in> set (sextets bs). unat s < 64"
  by (induction bs rule: sextets.induct)
     (auto intro!: six_bits sextet_1 sextet_2 sextet_3 sextet_2_last sextet_3_last)

text \<open>The decoding table inverts the encoding table, and no encoded sextet is the pad.\<close>

lemma unbase64_b64char:
  assumes "unat s < 64"
  shows "unbase64 (b64char s) = Some s"
proof -
  define n where "n = unat s"
  have s: "of_nat n = s" by (simp add: n_def)
  have n: "n < 64" using assms by (simp add: n_def)
  consider "n < 26" | "26 \<le> n" "n < 52" | "52 \<le> n" "n < 62" | "n = 62" | "n = 63"
    using n by linarith
  then show ?thesis
  proof cases
    case 1
    then have "b64char s = char_of (65 + n)" by (simp add: b64char_def n_def)
    moreover have "(of_char (char_of (65 + n)) :: nat) = 65 + n"
      using 1 by (simp add: of_char_of)
    ultimately show ?thesis using 1 s by (simp add: unbase64_def)
  next
    case 2
    then have "b64char s = char_of (71 + n)" by (simp add: b64char_def n_def)
    moreover have "(of_char (char_of (71 + n)) :: nat) = 71 + n"
      using 2 by (simp add: of_char_of)
    ultimately show ?thesis using 2 s by (simp add: unbase64_def)
  next
    case 3
    define k where "k = n - 4"
    have k: "48 \<le> k" "k \<le> 57" "k + 4 = n" using 3 by (simp_all add: k_def)
    have "b64char s = char_of k" using 3 by (simp add: b64char_def n_def k_def)
    moreover have "(of_char (char_of k) :: nat) = k" using k by (simp add: of_char_of)
    ultimately show ?thesis using k s by (simp add: unbase64_def)
  next
    case 4
    then have "b64char s = CHR ''+''" by (simp add: b64char_def n_def)
    moreover have "s = 62" using 4 s by auto
    ultimately show ?thesis by (simp add: unbase64_def)
  next
    case 5
    then have "b64char s = CHR ''/''" by (simp add: b64char_def n_def)
    moreover have "s = 63" using 5 s by auto
    ultimately show ?thesis by (simp add: unbase64_def)
  qed
qed

lemma b64char_not_pad: "unat s < 64 \<Longrightarrow> b64char s \<noteq> CHR ''=''"
proof
  assume a: "unat s < 64" and b: "b64char s = CHR ''=''"
  have "unbase64 (CHR ''='') = None" by (simp add: unbase64_def)
  with unbase64_b64char[OF a] b show False by simp
qed

lemma decode_chars:
  assumes "\<forall>s \<in> set ss. unat s < 64"
  shows "List.map_filter unbase64
           (takeWhile (\<lambda>c. c \<noteq> CHR ''='') (map b64char ss @ replicate k (CHR ''=''))) = ss"
  using assms
proof (induction ss)
  case Nil
  then show ?case by (cases k) (simp_all add: map_filter_simps)
next
  case (Cons s ss)
  then show ?case by (simp add: map_filter_simps unbase64_b64char b64char_not_pad)
qed

lemma unsextets_sextets: "unsextets (sextets bs) = bs"
  by (induction bs rule: sextets.induct)
     (simp_all only: sextets.simps unsextets.simps append_Cons append_Nil
        first_byte second_byte third_byte first_byte_last second_byte_last)

lemma fromBase64_toBase64: "fromBase64 (toBase64 bs) = bs"
  by (simp add: fromBase64_def toBase64_def padding_def decode_chars sextets_below_64
      unsextets_sextets)

lemma toBase64_nonempty: "bs \<noteq> [] \<Longrightarrow> toBase64 bs \<noteq> []"
  by (cases bs rule: sextets.cases) (simp_all add: toBase64_def)

text \<open>
  Claim C4. For every byte sequence \<open>B\<close>, decoding the base64 wire encoding of \<open>B\<close>
  gives exactly \<open>B\<close> again.
\<close>

theorem base64_round_trip: "fromBase64 (toBase64 B) = B"
  by (rule fromBase64_toBase64)

text \<open>
  In both directions the bytes that reach the far socket are the bytes that were read:
  a chunk of the target socket arrives at the attached local client, and the payload of
  a \<^verbatim>\<open>TRAFFIC\<close> message is what the server writes to the target socket.
\<close>

lemma target_chunk_reaches_local_client:
  assumes "client cs = Some c" and "ident \<noteq> []" and "chunk \<noteq> []"
  shows "on_socket_data conn ident chunk =
           [SendJSON conn (no_fields\<lparr> msg_connection := Some ident,
                                       msg_data := Some (toBase64 chunk) \<rparr>)]
       \<and> client_on_message cfg cs w (payload ident (toBase64 chunk)) =
           (cs, [LocalWrite c chunk], Returned)"
  using assms toBase64_nonempty[of chunk]
  by (simp add: on_socket_data_def sendJSON_def payload_def client_on_message_def
      isUTF8Message_def JSON_parse_def on_command_def on_connection_field_def no_fields_def
      truthy_def fromBase64_toBase64)

lemma local_chunk_reaches_target:
  assumes "sockets s conn = Some m" and "ident \<noteq> []"
    and "map_of m ident = Some this" and "socket this = Some sk"
  shows "on_TRAFFIC s conn (no_fields\<lparr> msg_type := Some ''TRAFFIC'', msg_id := Some ident,
                                        msg_data := Some (toBase64 chunk) \<rparr>) =
           (s, [SocketWrite sk chunk], None)"
  using assms
  by (simp add: on_TRAFFIC_def no_fields_def truthy_def key_of_def lookup_def
      fromBase64_toBase64)

section \<open>Authorisation of \<^verbatim>\<open>START\<close>\<close>

lemma indexOf_undefined: "indexOf xs None = - 1"
  by (induction xs) simp_all

lemma indexOf_range: "indexOf xs v = - 1 \<or> 0 \<le> indexOf xs v"
  by (induction xs) (auto simp: Let_def)

lemma indexOf_number: "indexOf xs (Some (Num n)) = - 1 \<longleftrightarrow> Num n \<notin> set xs"
proof (induction xs)
  case Nil
  then show ?case by simp
next
  case (Cons x xs)
  have "indexOf xs (Some (Num n)) + 1 \<noteq> - 1"
    using indexOf_range[of xs "Some (Num n)"] by auto
  with Cons show ?case by (cases x) (auto simp: Let_def)
qed

lemma refused_iff_not_permitted:
  "indexOf ports (map_option Num p) = - 1 \<and> indexOf ports (Some (Num 0)) = - 1
     \<longleftrightarrow> \<not> port_permitted ports p"
  by (cases p) (simp_all add: port_permitted_def indexOf_undefined indexOf_number)

lemma lookup_plain_key:
  "k \<notin> set object_prototype \<Longrightarrow>
   lookup obj k = (case obj k of Some v \<Rightarrow> Own v | None \<Rightarrow> Undefined)"
  by (simp add: lookup_def)

lemma lookup_wildcard_host:
  "lookup obj ''*'' = (case obj ''*'' of Some v \<Rightarrow> Own v | None \<Rightarrow> Undefined)"
  by (simp add: lookup_def object_prototype_def)

text \<open>
  Claim C1, as the code has it. On a connected session whose passphrase names a
  credential of the table, and for a host that is not the name of a member of
  \<^verbatim>\<open>Object.prototype\<close>, \<^verbatim>\<open>START\<close> is granted (the \<^verbatim>\<open>CONNECTING\<close> reply and the
  dial) exactly when the credential has no \<^verbatim>\<open>allowed\<close> restriction or the port list
  selected for the host permits the port; the list selected is the entry of the host
  itself when there is one, and the entry of \<^verbatim>\<open>*\<close> only when there is none. Every
  other request is answered \<^verbatim>\<open>FORBIDDEN\<close> and nothing else happens.
\<close>

theorem START_granted_iff_first_match:
  assumes "sockets s conn = Some m"
    and "conn_passphrase s conn = Some p" and "p \<noteq> []"
    and "tbl p = Some cred"
    and "key_of (host (fromBody body)) \<notin> set object_prototype"
  shows "on_START (Some tbl) uuid s conn body =
     (if authorize_first_match cred (fromBody body)
      then (s, [SendJSON conn (no_fields\<lparr> msg_command := Some ''START'',
                                 msg_status := Some ''CONNECTING'',
                                 msg_connection := Some uuid \<rparr>),
                NetConnect conn uuid (fromBody body)], None)
      else (s, [SendJSON conn (no_fields\<lparr> msg_command := msg_type body,
                                 msg_error := Some ''FORBIDDEN'' \<rparr>)], None))"
proof -
  have key: "truthy (conn_passphrase s conn)" "key_of (conn_passphrase s conn) = p"
    using assms by (simp_all add: truthy_def key_of_def)
  have cred: "lookup tbl p = Own cred"
    using assms by (simp add: lookup_def)
  show ?thesis
  proof (cases "allowed cred")
    case None
    then show ?thesis using assms key cred
      by (simp add: on_START_def authorize_first_match_def sendJSON_def Let_def)
  next
    case restricted: (Some a)
    have selected: "allowedPorts a (fromBody body) =
        (case a (key_of (host (fromBody body))) of
           Some ps \<Rightarrow> Own ps
         | None \<Rightarrow> (case a ''*'' of Some ps \<Rightarrow> Own ps | None \<Rightarrow> Undefined))"
      using assms(5)
      by (simp add: allowedPorts_def lookup_plain_key lookup_wildcard_host split: option.splits)
    show ?thesis
    proof (cases "allowedPorts a (fromBody body)")
      case Undefined
      then have "\<not> authorize_first_match cred (fromBody body)"
        using restricted selected
        by (auto simp: authorize_first_match_def split: option.splits)
      then show ?thesis using assms key cred restricted Undefined
        by (simp add: on_START_def sendJSON_def Let_def)
    next
      case Inherited
      then show ?thesis using selected by (simp split: option.splits)
    next
      case (Own ports)
      then have "authorize_first_match cred (fromBody body)
                   = port_permitted ports (port (fromBody body))"
        using restricted selected
        by (auto simp: authorize_first_match_def split: option.splits)
      then show ?thesis
        using assms key cred Own restricted
          refused_iff_not_permitted[of ports "port (fromBody body)"]
        by (simp add: on_START_def sendJSON_def Let_def)
    qed
  qed
qed

text \<open>
  A host that names a member of \<^verbatim>\<open>Object.prototype\<close> and has no entry of its own
  selects the inherited member instead of a port list, and the call of its
  \<^verbatim>\<open>indexOf\<close> throws: the request is neither granted nor answered.
\<close>

lemma START_inherited_host_throws:
  assumes "sockets s conn = Some m"
    and "conn_passphrase s conn = Some p" and "p \<noteq> []"
    and "tbl p = Some cred" and "allowed cred = Some a"
    and "key_of (host (fromBody body)) \<in> set object_prototype"
    and "a (key_of (host (fromBody body))) = None"
  shows "on_START (Some tbl) uuid s conn body = (s, [], Some TypeError)"
  using assms
  by (simp add: on_START_def allowedPorts_def lookup_def truthy_def key_of_def Let_def)

text \<open>The wildcard host grants a port to a host that has no entry of its own.\<close>

theorem START_granted_iff_first_match_witness:
  "on_START (Some [''abc'' \<mapsto> \<lparr> passphrase = ''abc'', allowed = Some [''*'' \<mapsto> [Num 443]] \<rparr>])
     ''id1'' \<lparr> sockets = [''c1'' \<mapsto> []], conn_passphrase = [''c1'' \<mapsto> ''abc''] \<rparr> ''c1''
     (no_fields\<lparr> msg_type := Some ''START'', msg_host := Some ''example.com'',
                 msg_port := Some 443 \<rparr>)
   = (\<lparr> sockets = [''c1'' \<mapsto> []], conn_passphrase = [''c1'' \<mapsto> ''abc''] \<rparr>,
      [SendJSON ''c1'' (no_fields\<lparr> msg_command := Some ''START'',
                                   msg_status := Some ''CONNECTING'',
                                   msg_connection := Some ''id1'' \<rparr>),
       NetConnect ''c1'' ''id1'' \<lparr> host = Some ''example.com'', port = Some 443 \<rparr>], None)"
  using START_granted_iff_first_match [of
      "\<lparr> sockets = [''c1'' \<mapsto> []], conn_passphrase = [''c1'' \<mapsto> ''abc''] \<rparr>" "''c1''" "[]"
      "''abc''"
      "[''abc'' \<mapsto> \<lparr> passphrase = ''abc'', allowed = Some [''*'' \<mapsto> [Num 443]] \<rparr>]"
      "\<lparr> passphrase = ''abc'', allowed = Some [''*'' \<mapsto> [Num 443]] \<rparr>"
      "no_fields\<lparr> msg_type := Some ''START'', msg_host := Some ''example.com'',
                  msg_port := Some 443 \<rparr>" "''id1''"]
  by (simp add: authorize_first_match_def port_permitted_def fromBody_def key_of_def
      no_fields_def object_prototype_def)

text \<open>
  The rule of the spec grants \<^verbatim>\<open>example.com:443\<close> to a credential that allows
  \<^verbatim>\<open>example.com:80\<close> and \<^verbatim>\<open>*:443\<close>; the server answers \<^verbatim>\<open>FORBIDDEN\<close>, because
  the entry of \<^verbatim>\<open>example.com\<close> hides the entry of \<^verbatim>\<open>*\<close>.
\<close>

theorem START_wildcard_host_shadowed:
  "authorize_spec \<lparr> passphrase = ''abc'',
       allowed = Some [''example.com'' \<mapsto> [Num 80], ''*'' \<mapsto> [Num 443]] \<rparr>
     \<lparr> host = Some ''example.com'', port = Some 443 \<rparr>
   \<and> on_START (Some [''abc'' \<mapsto> \<lparr> passphrase = ''abc'',
           allowed = Some [''example.com'' \<mapsto> [Num 80], ''*'' \<mapsto> [Num 443]] \<rparr>]) ''id1''
       \<lparr> sockets = [''c1'' \<mapsto> []], conn_passphrase = [''c1'' \<mapsto> ''abc''] \<rparr> ''c1''
       (no_fields\<lparr> msg_type := Some ''START'', msg_host := Some ''example.com'',
                   msg_port := Some 443 \<rparr>)
     = (\<lparr> sockets = [''c1'' \<mapsto> []], conn_passphrase = [''c1'' \<mapsto> ''abc''] \<rparr>,
        [SendJSON ''c1'' (no_fields\<lparr> msg_command := Some ''START'',
                                     msg_error := Some ''FORBIDDEN'' \<rparr>)], None)"
  by (simp add: authorize_spec_def port_permitted_def on_START_def fromBody_def key_of_def
      no_fields_def truthy_def allowedPorts_def lookup_def sendJSON_def Let_def)

section \<open>Messages before \<^verbatim>\<open>CONNECT\<close>\<close>

text \<open>\<^verbatim>\<open>START\<close> on a session without a mapping is answered \<^verbatim>\<open>AUTHFAIL\<close> and dropped.\<close>

lemma START_before_CONNECT:
  "sockets s conn = None \<Longrightarrow> msg_type body = Some ''START'' \<Longrightarrow>
   on_body credentials uuid s conn body =
     (s, [SendJSON conn (no_fields\<lparr> msg_command := Some ''START'',
                                    msg_error := Some ''AUTHFAIL'' \<rparr>)], None)"
  by (simp add: on_body_def on_START_def sendJSON_def)

text \<open>
  \<^verbatim>\<open>TRAFFIC\<close> on a session without a mapping is answered \<^verbatim>\<open>AUTHFAIL\<close> too, but the
  handler does not stop there.
\<close>

lemma TRAFFIC_before_CONNECT_with_id:
  "sockets s conn = None \<Longrightarrow> msg_type body = Some ''TRAFFIC'' \<Longrightarrow> truthy (msg_id body) \<Longrightarrow>
   on_body credentials uuid s conn body =
     (s, [SendJSON conn (no_fields\<lparr> msg_command := Some ''TRAFFIC'',
                                    msg_error := Some ''AUTHFAIL'' \<rparr>)], Some TypeError)"
  by (simp add: on_body_def on_TRAFFIC_def sendJSON_def Let_def)

lemma TRAFFIC_before_CONNECT_without_id:
  "sockets s conn = None \<Longrightarrow> msg_type body = Some ''TRAFFIC'' \<Longrightarrow> \<not> truthy (msg_id body) \<Longrightarrow>
   on_body credentials uuid s conn body =
     (s, [SendJSON conn (no_fields\<lparr> msg_command := Some ''TRAFFIC'',
                                    msg_error := Some ''AUTHFAIL'' \<rparr>),
          SendJSON conn (no_fields\<lparr> msg_command := Some ''TRAFFIC'',
                                    msg_connection := msg_id body,
                                    msg_error := Some ''NOID'' \<rparr>)], None)"
  by (simp add: on_body_def on_TRAFFIC_def sendJSON_def Let_def)

text \<open>
  Claim C2 says that a \<^verbatim>\<open>TRAFFIC\<close> message on a session that has not connected is
  answered \<^verbatim>\<open>AUTHFAIL\<close> and not processed further, without a failure. The handler
  sends \<^verbatim>\<open>AUTHFAIL\<close> and goes on: with a connection id it reads the id in a mapping
  that does not exist and throws a \<^verbatim>\<open>TypeError\<close>; without one it sends a second reply,
  \<^verbatim>\<open>NOID\<close>.
\<close>

theorem TRAFFIC_before_CONNECT:
  "on_body None ''id1'' \<lparr> sockets = Map.empty, conn_passphrase = Map.empty \<rparr> ''c1''
     (no_fields\<lparr> msg_type := Some ''TRAFFIC'', msg_id := Some ''x'',
                 msg_data := Some ''aGk='' \<rparr>)
   = (\<lparr> sockets = Map.empty, conn_passphrase = Map.empty \<rparr>,
      [SendJSON ''c1'' (no_fields\<lparr> msg_command := Some ''TRAFFIC'',
                                   msg_error := Some ''AUTHFAIL'' \<rparr>)],
      Some TypeError)
   \<and> on_body None ''id1'' \<lparr> sockets = Map.empty, conn_passphrase = Map.empty \<rparr> ''c1''
     (no_fields\<lparr> msg_type := Some ''TRAFFIC'' \<rparr>)
   = (\<lparr> sockets = Map.empty, conn_passphrase = Map.empty \<rparr>,
      [SendJSON ''c1'' (no_fields\<lparr> msg_command := Some ''TRAFFIC'',
                                   msg_error := Some ''AUTHFAIL'' \<rparr>),
       SendJSON ''c1'' (no_fields\<lparr> msg_command := Some ''TRAFFIC'',
                                   msg_error := Some ''NOID'' \<rparr>)],
      None)"
  by (simp add: on_body_def on_TRAFFIC_def sendJSON_def no_fields_def truthy_def Let_def)

section \<open>The outcome of a dial\<close>

text \<open>A timeout is reported as \<^verbatim>\<open>FAILED\<close> and leaves the registry as it was.\<close>

lemma dial_timeout_reported:
  "on_dial_event s conn ident this sk Timeout =
     (s, [SendJSON conn (no_fields\<lparr> msg_status := Some ''FAILED'',
                                    msg_error := Some ''TIMEOUT'',
                                    msg_connection := Some ident \<rparr>)], None)"
  by (simp add: on_dial_event_def start_def dial_failed_def reason_def sendJSON_def)

lemma dial_connect_registers:
  "sockets s conn = Some m \<Longrightarrow>
   on_dial_event s conn ident this sk Connect =
     (s\<lparr> sockets := (sockets s)(conn \<mapsto> AList.update ident (this\<lparr> socket := Some sk \<rparr>) m) \<rparr>,
      [SendJSON conn (no_fields\<lparr> msg_status := Some ''ESTABLISHED'',
                                 msg_connection := Some ident \<rparr>)], None)"
  by (simp add: on_dial_event_def start_def dial_established_def sendJSON_def)

text \<open>
  Claim C5 says that every failed dial is answered \<^verbatim>\<open>FAILED\<close>. A dial that fails
  with an \<^verbatim>\<open>error\<close> event of the socket, as a refused connection does, finds no
  listener: the promise of \<^verbatim>\<open>start\<close> is never rejected, no reply is sent, and the
  event is thrown as an uncaught error.
\<close>

theorem dial_error_event_unreported:
  "on_dial_event \<lparr> sockets = [''c1'' \<mapsto> []], conn_passphrase = Map.empty \<rparr> ''c1'' ''id1''
     \<lparr> target = \<lparr> host = Some ''127.0.0.1'', port = Some 9 \<rparr>, socket = None \<rparr> 5
     (Error ''ECONNREFUSED'')
   = (\<lparr> sockets = [''c1'' \<mapsto> []], conn_passphrase = Map.empty \<rparr>, [],
      Some (UnhandledErrorEvent ''ECONNREFUSED''))"
  by (simp add: on_dial_event_def start_def)

section \<open>Close of an established target socket\<close>

text \<open>
  A target socket that closes without an error: the server removes the entry of
  \<open>ident\<close> from the mapping of the session and leaves the other entries alone, sends
  \<^verbatim>\<open>{connection, status: CLOSED, hadError: false}\<close>, and then closes the WebSocket
  connection.
\<close>

lemma clean_close_removes_reports_closes:
  assumes "sockets s conn = Some m"
  shows "server_step credentials s (SocketEvent conn ident (Close False)) =
     (s\<lparr> sockets := (sockets s)(conn \<mapsto> AList.delete ident m) \<rparr>,
      [SendJSON conn (no_fields\<lparr> msg_connection := Some ident, msg_status := Some ''CLOSED'',
                                 msg_hadError := Some False \<rparr>),
       ConnClose conn], None)
    \<and> map_of (AList.delete ident m) ident = None
    \<and> (\<forall>k. k \<noteq> ident \<longrightarrow> map_of (AList.delete ident m) k = map_of m k)"
  using assms
  by (simp add: server_step_def on_socket_event_def on_socket_close_def sendJSON_def delete_conv)

text \<open>
  Claim C6 says that whenever an established target socket closes, the entry is removed,
  \<^verbatim>\<open>CLOSED\<close> is sent with \<^verbatim>\<open>hadError\<close>, and the WebSocket connection is closed. A
  socket that closes because of an error, a reset by the target for one, emits
  \<^verbatim>\<open>error\<close> before \<^verbatim>\<open>close\<close>. Nothing listens for \<^verbatim>\<open>error\<close>, so the event is
  thrown and ends the process before the \<^verbatim>\<open>close\<close> listener runs: the entry stays,
  no \<^verbatim>\<open>CLOSED\<close> is sent and the WebSocket connection is not closed.
\<close>

theorem failed_socket_close_unreported:
  "server_run None
     \<lparr> sockets = [''c1'' \<mapsto> [(''id1'', \<lparr> target = \<lparr> host = Some ''h'', port = Some 80 \<rparr>,
                                         socket = Some 5 \<rparr>)]],
       conn_passphrase = Map.empty \<rparr>
     [SocketEvent ''c1'' ''id1'' (Error ''ECONNRESET''), SocketEvent ''c1'' ''id1'' (Close True)]
   = (\<lparr> sockets = [''c1'' \<mapsto> [(''id1'', \<lparr> target = \<lparr> host = Some ''h'', port = Some 80 \<rparr>,
                                           socket = Some 5 \<rparr>)]],
        conn_passphrase = Map.empty \<rparr>, [],
      Some (UnhandledErrorEvent ''ECONNRESET''))"
  by (simp add: server_step_def on_socket_event_def ends_process_def)

section \<open>Frames that are not control messages\<close>

text \<open>
  Claim C9 says that a frame which is not valid JSON is ignored without an error. A text
  frame whose content is not valid JSON makes \<^verbatim>\<open>JSON.parse\<close> throw in the message
  handler of the server and in that of the client.
\<close>

theorem malformed_text_throws:
  "on_message None ''id1'' \<lparr> sockets = Map.empty, conn_passphrase = Map.empty \<rparr> ''c1''
     (Utf8Frame (Malformed ''{''))
   = (\<lparr> sockets = Map.empty, conn_passphrase = Map.empty \<rparr>, [], Some SyntaxError)
   \<and> client_on_message \<lparr> target_host = ''example.com'', target_port = Some 80,
                          cfg_passphrase = None \<rparr>
       \<lparr> connectionId = Some [], wsConnection = Some 7, isConnected = True,
         buffers = [], client = None \<rparr> 7 (Utf8Frame (Malformed ''{''))
   = (\<lparr> connectionId = Some [], wsConnection = Some 7, isConnected = True,
        buffers = [], client = None \<rparr>, [], Threw SyntaxError)"
  by (simp add: on_message_def client_on_message_def isUTF8Message_def JSON_parse_def)

text \<open>
  Claim C9, as the code has it. Both ends ignore a binary frame: the state is unchanged,
  nothing is sent and no error is raised. A text frame that is not valid JSON changes no
  state and sends nothing either, but it is not ignored silently: the message handler of
  either end throws the \<^verbatim>\<open>SyntaxError\<close> of \<^verbatim>\<open>JSON.parse\<close>.
\<close>

theorem binary_ignored_malformed_text_throws:
  "on_message credentials uuid s conn (BinaryFrame b) = (s, [], None)
   \<and> client_on_message cfg cs w (BinaryFrame b) = (cs, [], Returned)
   \<and> on_message credentials uuid s conn (Utf8Frame (Malformed t)) = (s, [], Some SyntaxError)
   \<and> client_on_message cfg cs w (Utf8Frame (Malformed t)) = (cs, [], Threw SyntaxError)"
  by (simp add: on_message_def client_on_message_def isUTF8Message_def JSON_parse_def)

section \<open>A second \<^verbatim>\<open>CONNECT\<close>\<close>

text \<open>
  Claim C10 says that a second \<^verbatim>\<open>CONNECT\<close> on an authenticated session empties the
  mapping and that every id allocated before is answered \<^verbatim>\<open>INVALIDID\<close> afterwards.
  First, a second \<^verbatim>\<open>CONNECT\<close> with a passphrase that the table does not know is
  answered \<^verbatim>\<open>AUTHFAIL\<close> and leaves the mapping alone: \<^verbatim>\<open>TRAFFIC\<close> for the
  connection allocated before still reaches its socket. Second, an id that \<^verbatim>\<open>START\<close>
  allocated and whose dial is still pending at the second \<^verbatim>\<open>CONNECT\<close> is put into
  the new mapping when the dial connects, and \<^verbatim>\<open>TRAFFIC\<close> for it reaches the socket.
\<close>

theorem CONNECT_rejected_or_dial_pending:
  "on_body (Some [''abc'' \<mapsto> \<lparr> passphrase = ''abc'', allowed = None \<rparr>]) ''id2''
     \<lparr> sockets = [''c1'' \<mapsto> [(''id1'', \<lparr> target = \<lparr> host = Some ''h'', port = Some 80 \<rparr>,
                                         socket = Some 5 \<rparr>)]],
       conn_passphrase = [''c1'' \<mapsto> ''abc''] \<rparr> ''c1''
     (no_fields\<lparr> msg_type := Some ''CONNECT'', msg_passphrase := Some ''xyz'' \<rparr>)
   = (\<lparr> sockets = [''c1'' \<mapsto> [(''id1'', \<lparr> target = \<lparr> host = Some ''h'', port = Some 80 \<rparr>,
                                         socket = Some 5 \<rparr>)]],
        conn_passphrase = [''c1'' \<mapsto> ''abc''] \<rparr>,
      [SendJSON ''c1'' (no_fields\<lparr> msg_command := Some ''CONNECT'',
                                   msg_error := Some ''AUTHFAIL'' \<rparr>)], None)
   \<and> on_body (Some [''abc'' \<mapsto> \<lparr> passphrase = ''abc'', allowed = None \<rparr>]) ''id3''
     \<lparr> sockets = [''c1'' \<mapsto> [(''id1'', \<lparr> target = \<lparr> host = Some ''h'', port = Some 80 \<rparr>,
                                         socket = Some 5 \<rparr>)]],
       conn_passphrase = [''c1'' \<mapsto> ''abc''] \<rparr> ''c1''
     (no_fields\<lparr> msg_type := Some ''TRAFFIC'', msg_id := Some ''id1'',
                 msg_data := Some ''aGk='' \<rparr>)
   = (\<lparr> sockets = [''c1'' \<mapsto> [(''id1'', \<lparr> target = \<lparr> host = Some ''h'', port = Some 80 \<rparr>,
                                         socket = Some 5 \<rparr>)]],
        conn_passphrase = [''c1'' \<mapsto> ''abc''] \<rparr>,
      [SocketWrite 5 [104, 105]], None)
   \<and> server_run None \<lparr> sockets = [''c1'' \<mapsto> []], conn_passphrase = Map.empty \<rparr>
       [Message ''c1'' ''id1''
          (Utf8Frame (Json (no_fields\<lparr> msg_type := Some ''START'', msg_host := Some ''h'',
                                        msg_port := Some 80 \<rparr>))),
        Message ''c1'' ''id2'' (Utf8Frame (Json (no_fields\<lparr> msg_type := Some ''CONNECT'' \<rparr>))),
        DialEvent ''c1'' ''id1'' \<lparr> target = \<lparr> host = Some ''h'', port = Some 80 \<rparr>,
                                    socket = None \<rparr> 5 Connect]
   = (\<lparr> sockets = [''c1'' \<mapsto> [(''id1'', \<lparr> target = \<lparr> host = Some ''h'', port = Some 80 \<rparr>,
                                         socket = Some 5 \<rparr>)]],
        conn_passphrase = Map.empty \<rparr>,
      [SendJSON ''c1'' (no_fields\<lparr> msg_command := Some ''START'',
                                   msg_status := Some ''CONNECTING'',
                                   msg_connection := Some ''id1'' \<rparr>),
       NetConnect ''c1'' ''id1'' \<lparr> host = Some ''h'', port = Some 80 \<rparr>,
       SendJSON ''c1'' (no_fields\<lparr> msg_command := Some ''CONNECT'' \<rparr>),
       SendJSON ''c1'' (no_fields\<lparr> msg_status := Some ''ESTABLISHED'',
                                   msg_connection := Some ''id1'' \<rparr>)], None)
   \<and> on_body None ''id3''
       \<lparr> sockets = [''c1'' \<mapsto> [(''id1'', \<lparr> target = \<lparr> host = Some ''h'', port = Some 80 \<rparr>,
                                           socket = Some 5 \<rparr>)]],
         conn_passphrase = Map.empty \<rparr> ''c1''
       (no_fields\<lparr> msg_type := Some ''TRAFFIC'', msg_id := Some ''id1'',
                   msg_data := Some ''aGk='' \<rparr>)
   = (\<lparr> sockets = [''c1'' \<mapsto> [(''id1'', \<lparr> target = \<lparr> host = Some ''h'', port = Some 80 \<rparr>,
                                         socket = Some 5 \<rparr>)]],
        conn_passphrase = Map.empty \<rparr>,
      [SocketWrite 5 [104, 105]], None)"
proof -
  have d: "fromBase64 ''aGk='' = [104, 105]"
    by (simp add: fromBase64_def unbase64_def map_filter_simps)
  show ?thesis
    by (simp add: d server_step_def ends_process_def on_message_def isUTF8Message_def
        JSON_parse_def on_dial_event_def start_def dial_established_def fromBody_def
        on_body_def on_CONNECT_def on_START_def on_TRAFFIC_def isAuthenticated_def
        sendJSON_def no_fields_def truthy_def key_of_def lookup_def object_prototype_def Let_def)
qed

text \<open>
  No event takes an id into a mapping except the \<^verbatim>\<open>connect\<close> of a dial started for
  that id on that connection: each handler keeps an id that is not tracked untracked.
\<close>

lemma close_each_keys: "map fst (fst (close_each m)) = map fst m"
  by (induction m rule: close_each.induct) (auto split: option.splits prod.splits)

lemma close_each_untracked:
  "map_of m k = None \<Longrightarrow> map_of (fst (close_each m)) k = None"
proof -
  assume "map_of m k = None"
  then have "k \<notin> fst ` set m" by (simp add: map_of_eq_None_iff)
  then have "k \<notin> fst ` set (fst (close_each m))"
    by (metis close_each_keys set_map)
  then show ?thesis by (simp add: map_of_eq_None_iff)
qed

lemma on_START_state: "fst (on_START credentials uuid s c body) = s"
  by (simp add: on_START_def Let_def split: option.split property.split)

lemma on_TRAFFIC_state: "fst (on_TRAFFIC s c body) = s"
  by (simp add: on_TRAFFIC_def Let_def split: option.split property.split)

lemma on_CONNECT_untracked:
  assumes "untracked s conn ident"
  shows "untracked (fst (on_CONNECT credentials s c body)) conn ident"
  using assms by (simp add: on_CONNECT_def untracked_def Let_def)

lemma on_body_untracked:
  assumes "untracked s conn ident"
  shows "untracked (fst (on_body credentials uuid s c body)) conn ident"
  using assms
  by (simp add: on_body_def on_START_state on_TRAFFIC_state on_CONNECT_untracked)

lemma on_message_untracked:
  assumes "untracked s conn ident"
  shows "untracked (fst (on_message credentials uuid s c message)) conn ident"
  using assms on_body_untracked[OF assms]
  by (auto simp: on_message_def split: option.splits)

lemma on_dial_event_untracked:
  assumes "untracked s conn ident" and "\<not> (c = conn \<and> i = ident \<and> e = Connect)"
  shows "untracked (fst (on_dial_event s c i this sk e)) conn ident"
  using assms
  by (cases e)
     (auto simp: on_dial_event_def start_def dial_established_def dial_failed_def untracked_def
        update_conv Let_def split: option.splits)

lemma on_socket_event_untracked:
  assumes "untracked s conn ident"
  shows "untracked (fst (on_socket_event s c i e)) conn ident"
  using assms
  by (cases e)
     (auto simp: on_socket_event_def on_socket_close_def untracked_def delete_conv
        split: option.splits)

lemma on_conn_close_untracked:
  assumes "untracked s conn ident"
  shows "untracked (fst (on_conn_close s c)) conn ident"
  using assms close_each_untracked
  by (auto simp: on_conn_close_def untracked_def split: option.splits prod.splits)
     (metis fst_conv)+

lemma server_step_untracked:
  assumes "untracked s conn ident" and "\<not> completes_dial ev conn ident"
  shows "untracked (fst (server_step credentials s ev)) conn ident"
proof (cases ev)
  case (Message c uuid message)
  then show ?thesis using assms(1) by (simp add: server_step_def on_message_untracked)
next
  case (DialEvent c i this sk e)
  then show ?thesis using assms
    by (simp add: server_step_def completes_dial_def on_dial_event_untracked)
next
  case (SocketEvent c i e)
  then show ?thesis using assms(1) by (simp add: server_step_def on_socket_event_untracked)
next
  case (ConnClosed c)
  then show ?thesis using assms(1) by (simp add: server_step_def on_conn_close_untracked)
qed

lemma server_run_untracked:
  assumes "untracked s conn ident" and "\<forall>ev \<in> set evs. \<not> completes_dial ev conn ident"
  shows "untracked (fst (server_run credentials s evs)) conn ident"
  using assms
proof (induction evs arbitrary: s)
  case Nil
  then show ?case by simp
next
  case (Cons ev evs)
  have step: "untracked (fst (server_step credentials s ev)) conn ident"
    using Cons.prems by (simp add: server_step_untracked)
  obtain s1 done1 err where r: "server_step credentials s ev = (s1, done1, err)"
    by (cases "server_step credentials s ev") auto
  with step have s1: "untracked s1 conn ident" by simp
  show ?case
  proof (cases "ends_process ev err")
    case True
    then show ?thesis using r s1 by simp
  next
    case False
    have "untracked (fst (server_run credentials s1 evs)) conn ident"
      using Cons.IH[OF s1] Cons.prems by simp
    then show ?thesis using r False
      by (cases "server_run credentials s1 evs") simp
  qed
qed

lemma TRAFFIC_untracked_INVALIDID:
  assumes "untracked s conn ident" and "msg_type t = Some ''TRAFFIC''"
    and "msg_id t = Some ident" and "ident \<noteq> []" and "ident \<notin> set object_prototype"
  shows "on_body credentials uuid s conn t =
           (s, [SendJSON conn (no_fields\<lparr> msg_command := Some ''TRAFFIC'',
                                          msg_connection := Some ident,
                                          msg_error := Some ''INVALIDID'' \<rparr>)], None)"
  using assms
  by (auto simp: on_body_def on_TRAFFIC_def untracked_def lookup_def truthy_def key_of_def
      sendJSON_def Let_def split: option.splits)

text \<open>
  Claim C10, as the code has it. A second \<^verbatim>\<open>CONNECT\<close> on a session that already
  has a mapping either passes authentication or does not. If it does, it is answered
  \<^verbatim>\<open>{command: CONNECT}\<close> and leaves the mapping of the session empty; the sockets of
  the former entries are not ended by it, and the close handler of the WebSocket
  connection, which ends the sockets of the mapping, finds none. From then on, whatever
  events the server handles, an id stays out of the mapping and \<^verbatim>\<open>TRAFFIC\<close> for it is
  answered \<^verbatim>\<open>INVALIDID\<close>, unless a dial started for that id connects in between
  (the id being a non-empty text that is not the name of a member of
  \<^verbatim>\<open>Object.prototype\<close>, as every allocated id is). If the \<^verbatim>\<open>CONNECT\<close> does not pass
  authentication, it is answered \<^verbatim>\<open>AUTHFAIL\<close> and the state is unchanged.
\<close>

theorem second_CONNECT_resets_iff_accepted:
  assumes "msg_type body = Some ''CONNECT''" and "sockets s conn = Some m"
    and "msg_type t = Some ''TRAFFIC''" and "msg_id t = Some ident"
    and "ident \<noteq> []" and "ident \<notin> set object_prototype"
    and "\<forall>ev \<in> set evs. \<not> completes_dial ev conn ident"
  shows "if isAuthenticated credentials body then
           (\<exists>s'. on_body credentials uuid s conn body =
                    (s', [SendJSON conn (no_fields\<lparr> msg_command := Some ''CONNECT'' \<rparr>)], None)
               \<and> sockets s' conn = Some []
               \<and> fst (snd (on_conn_close s' conn)) = []
               \<and> untracked (fst (server_run credentials s' evs)) conn ident
               \<and> on_body credentials uuid' (fst (server_run credentials s' evs)) conn t =
                    (fst (server_run credentials s' evs),
                     [SendJSON conn (no_fields\<lparr> msg_command := Some ''TRAFFIC'',
                                                msg_connection := Some ident,
                                                msg_error := Some ''INVALIDID'' \<rparr>)], None))
         else on_body credentials uuid s conn body =
                (s, [SendJSON conn (no_fields\<lparr> msg_command := Some ''CONNECT'',
                                               msg_error := Some ''AUTHFAIL'' \<rparr>)], None)"
proof (cases "isAuthenticated credentials body")
  case False
  then show ?thesis using assms(1) by (simp add: on_body_def on_CONNECT_def sendJSON_def)
next
  case True
  obtain s' where c: "on_body credentials uuid s conn body =
       (s', [SendJSON conn (no_fields\<lparr> msg_command := Some ''CONNECT'' \<rparr>)], None)"
     and e: "sockets s' conn = Some []"
    using assms(1) True by (simp add: on_body_def on_CONNECT_def sendJSON_def Let_def)
  have u: "untracked s' conn ident" using e by (simp add: untracked_def)
  have run: "untracked (fst (server_run credentials s' evs)) conn ident"
    using server_run_untracked[OF u assms(7)] .
  have "on_body credentials uuid' (fst (server_run credentials s' evs)) conn t =
          (fst (server_run credentials s' evs),
           [SendJSON conn (no_fields\<lparr> msg_command := Some ''TRAFFIC'',
                                      msg_connection := Some ident,
                                      msg_error := Some ''INVALIDID'' \<rparr>)], None)"
    using TRAFFIC_untracked_INVALIDID[OF run assms(3,4,5,6)] .
  moreover have "fst (snd (on_conn_close s' conn)) = []"
    using e by (simp add: on_conn_close_def)
  ultimately show ?thesis using True c e run by auto
qed


theorem second_CONNECT_resets_iff_accepted_witness:
  "\<exists>s'. on_body None ''id8''
           \<lparr> sockets = [''c1'' \<mapsto> [(''id1'', \<lparr> target = \<lparr> host = Some ''h'', port = Some 80 \<rparr>,
                                               socket = Some 5 \<rparr>)]],
             conn_passphrase = Map.empty \<rparr> ''c1''
           (no_fields\<lparr> msg_type := Some ''CONNECT'' \<rparr>) =
          (s', [SendJSON ''c1'' (no_fields\<lparr> msg_command := Some ''CONNECT'' \<rparr>)], None)
     \<and> sockets s' ''c1'' = Some []
     \<and> fst (snd (on_conn_close s' ''c1'')) = []
     \<and> untracked (fst (server_run None s'
           [DialEvent ''c1'' ''id2'' \<lparr> target = \<lparr> host = Some ''h'', port = Some 80 \<rparr>,
                                         socket = None \<rparr> 6 Connect,
            SocketEvent ''c1'' ''id2'' (Close False)])) ''c1'' ''id1''
     \<and> on_body None ''id9''
           (fst (server_run None s'
             [DialEvent ''c1'' ''id2'' \<lparr> target = \<lparr> host = Some ''h'', port = Some 80 \<rparr>,
                                           socket = None \<rparr> 6 Connect,
              SocketEvent ''c1'' ''id2'' (Close False)])) ''c1''
           (no_fields\<lparr> msg_type := Some ''TRAFFIC'', msg_id := Some ''id1'',
                       msg_data := Some ''aGk='' \<rparr>) =
          (fst (server_run None s'
             [DialEvent ''c1'' ''id2'' \<lparr> target = \<lparr> host = Some ''h'', port = Some 80 \<rparr>,
                                           socket = None \<rparr> 6 Connect,
              SocketEvent ''c1'' ''id2'' (Close False)]),
           [SendJSON ''c1'' (no_fields\<lparr> msg_command := Some ''TRAFFIC'',
                                        msg_connection := Some ''id1'',
                                        msg_error := Some ''INVALIDID'' \<rparr>)], None)"
proof -
  have pre: "isAuthenticated None (no_fields\<lparr> msg_type := Some ''CONNECT'' \<rparr>)"
      "''id1'' \<noteq> []" "''id1'' \<notin> set object_prototype"
      "\<forall>ev \<in> set [DialEvent ''c1'' ''id2'' \<lparr> target = \<lparr> host = Some ''h'', port = Some 80 \<rparr>,
                                               socket = None \<rparr> 6 Connect,
                      SocketEvent ''c1'' ''id2'' (Close False)].
         \<not> completes_dial ev ''c1'' ''id1''"
    by (simp_all add: isAuthenticated_def object_prototype_def completes_dial_def)
  have fields: "msg_type (no_fields\<lparr> msg_type := Some ''CONNECT'' \<rparr>) = Some ''CONNECT''"
      "msg_type (no_fields\<lparr> msg_type := Some ''TRAFFIC'', msg_id := Some ''id1'',
                             msg_data := Some ''aGk='' \<rparr>) = Some ''TRAFFIC''"
      "msg_id (no_fields\<lparr> msg_type := Some ''TRAFFIC'', msg_id := Some ''id1'',
                           msg_data := Some ''aGk='' \<rparr>) = Some ''id1''"
    by (simp_all add: no_fields_def)
  have st: "sockets \<lparr> sockets = [''c1'' \<mapsto> [(''id1'', \<lparr> target = \<lparr> host = Some ''h'', port = Some 80 \<rparr>,
                                               socket = Some 5 \<rparr>)]],
             conn_passphrase = Map.empty \<rparr> ''c1''
        = Some [(''id1'', \<lparr> target = \<lparr> host = Some ''h'', port = Some 80 \<rparr>, socket = Some 5 \<rparr>)]"
    by simp
  show ?thesis
    using second_CONNECT_resets_iff_accepted [OF fields(1) st fields(2) fields(3) pre(2) pre(3) pre(4),
        of None "''id8''" "''id9''"] pre(1)
    by (simp only: if_True)
qed

section \<open>The pending buffer queue of the client\<close>

lemma payload_buffered:
  assumes "client s = None" and "ident \<noteq> []" and "d \<noteq> []"
  shows "client_on_message cfg s conn (payload ident d) =
           (s\<lparr> buffers := buffers s @ [fromBase64 d] \<rparr>, [], Returned)"
  using assms
  by (simp add: payload_def client_on_message_def isUTF8Message_def JSON_parse_def
      on_command_def on_connection_field_def no_fields_def truthy_def)

lemma payloads_buffered:
  assumes "client s = None" and "ident \<noteq> []" and "\<forall>d \<in> set ds. d \<noteq> []"
  shows "receive_all cfg conn s (map (payload ident) ds) =
           (s\<lparr> buffers := buffers s @ map fromBase64 ds \<rparr>, [], Returned)"
  using assms
proof (induction ds arbitrary: s)
  case Nil
  then show ?case by simp
next
  case (Cons d ds)
  let ?s1 = "s\<lparr> buffers := buffers s @ [fromBase64 d] \<rparr>"
  have step: "client_on_message cfg s conn (payload ident d) = (?s1, [], Returned)"
    using Cons.prems by (simp add: payload_buffered)
  have "client ?s1 = None" using Cons.prems by simp
  then have "receive_all cfg conn ?s1 (map (payload ident) ds) =
           (?s1\<lparr> buffers := buffers ?s1 @ map fromBase64 ds \<rparr>, [], Returned)"
    using Cons.IH[of ?s1] Cons.prems by simp
  with step show ?case by simp
qed

lemma flush_writes_all: "flush sk bs = ([], map (LocalWrite sk) bs)"
  by (induction bs) simp_all

lemma attach_flushes:
  "client s = None \<Longrightarrow>
   on_connection s sk =
     (s\<lparr> client := Some sk, buffers := [] \<rparr>, map (LocalWrite sk) (buffers s))"
  by (simp add: on_connection_def flush_writes_all)

text \<open>
  Claim C7. While no local client is attached, every payload that arrives (a message with
  a connection id and a non-empty \<^verbatim>\<open>data\<close> field) is decoded and appended to the
  pending queue, and nothing is written. When a local client then attaches, the queue is
  written to it from the oldest buffer to the newest, and the queue is empty afterwards.
\<close>

theorem buffered_payloads_flushed_in_order:
  assumes "client s = None" and "ident \<noteq> []" and "\<forall>d \<in> set ds. d \<noteq> []"
  shows "receive_all cfg conn s (map (payload ident) ds) =
           (s\<lparr> buffers := buffers s @ map fromBase64 ds \<rparr>, [], Returned)
       \<and> on_connection (s\<lparr> buffers := buffers s @ map fromBase64 ds \<rparr>) sk =
           (s\<lparr> client := Some sk, buffers := [] \<rparr>,
            map (LocalWrite sk) (buffers s @ map fromBase64 ds))"
  using assms by (simp add: payloads_buffered attach_flushes)

theorem buffered_payloads_flushed_in_order_witness:
  "receive_all \<lparr> target_host = ''example.com'', target_port = Some 80, cfg_passphrase = None \<rparr> 7
      \<lparr> connectionId = Some ''id1'', wsConnection = Some 7, isConnected = True,
        buffers = [], client = None \<rparr>
      (map (payload ''id1'') [''aGk='', ''IQ==''])
    = (\<lparr> connectionId = Some ''id1'', wsConnection = Some 7, isConnected = True,
         buffers = [[104, 105], [33]], client = None \<rparr>, [], Returned)
   \<and> on_connection \<lparr> connectionId = Some ''id1'', wsConnection = Some 7, isConnected = True,
         buffers = [[104, 105], [33]], client = None \<rparr> 1
    = (\<lparr> connectionId = Some ''id1'', wsConnection = Some 7, isConnected = True,
         buffers = [], client = Some 1 \<rparr>,
       [LocalWrite 1 [104, 105], LocalWrite 1 [33]])"
proof -
  have d: "fromBase64 ''aGk='' = [104, 105]" "fromBase64 ''IQ=='' = [33]"
    by (simp_all add: fromBase64_def unbase64_def map_filter_simps)
  show ?thesis
    using buffered_payloads_flushed_in_order [of
      "\<lparr> connectionId = Some ''id1'', wsConnection = Some 7, isConnected = True,
        buffers = [], client = None \<rparr>" "''id1''" "[''aGk='', ''IQ=='']"
      "\<lparr> target_host = ''example.com'', target_port = Some 80, cfg_passphrase = None \<rparr>" 7 1]
    by (simp add: d)
qed

section \<open>A second local client\<close>

text \<open>The \<^verbatim>\<open>connection\<close> handler ends a second socket and changes nothing.\<close>

lemma second_connection_rejected:
  "client s = Some c \<Longrightarrow> on_connection s sk = (s, [LocalEnd sk])"
  by (simp add: on_connection_def)

text \<open>
  Claim C8 says that rejecting a second local client leaves the attached client, the
  WebSocket connection and the traffic of the first client undisturbed. The rejected
  socket carries the same \<^verbatim>\<open>close\<close> listener as the attached one: with client 1
  attached, socket 2 is ended by the \<^verbatim>\<open>connection\<close> handler, and when socket 2 then
  closes, its listener closes the WebSocket connection and clears the attached client.
\<close>

theorem rejected_socket_close_detaches_first:
  "on_connection \<lparr> connectionId = Some ''id1'', wsConnection = Some 7, isConnected = True,
                    buffers = [], client = Some 1 \<rparr> 2
   = (\<lparr> connectionId = Some ''id1'', wsConnection = Some 7, isConnected = True,
        buffers = [], client = Some 1 \<rparr>, [LocalEnd 2])
   \<and> on_local_close \<lparr> connectionId = Some ''id1'', wsConnection = Some 7, isConnected = True,
                       buffers = [], client = Some 1 \<rparr> 2
   = (\<lparr> connectionId = Some ''id1'', wsConnection = Some 7, isConnected = True,
        buffers = [], client = None \<rparr>, [WsClose 7])"
  by (simp add: on_connection_def on_local_close_def)

end
